theory Spec2Isabelle
  imports Complex_Main "HOL-Library.Countable"
begin

section \<open>The document model of \<^verbatim>\<open>src/types.ts\<close>\<close>

text \<open>
  A JavaScript number. The script never computes with a number and never compares two, it
  only carries what the literal gave it: \<open>Finite q\<close> stands for the double that the
  literal \<open>q\<close> denotes, and the values a double has besides the finite ones are listed.
\<close>

datatype number = Finite rat | NegZero | NaN | PosInfinity | NegInfinity

text \<open>
  \<^verbatim>\<open>WidthOption | number\<close>, \<^verbatim>\<open>HeightOption | number\<close> and \<^verbatim>\<open>DpiOption | number\<close>:
  a label or a number. The label sets of the source are closed sets of string literals;
  nothing at run time looks at them, so the model admits every string.
\<close>

datatype str_or_num = Str string | Num number

text \<open>\<^verbatim>\<open>negative_prompt?: string | string[]\<close>\<close>

datatype str_or_strs = One string | Many "string list"

text \<open>
  A property declared with \<^verbatim>\<open>?\<close>: left out of the object, written with the value
  \<^verbatim>\<open>undefined\<close> (which the declared type admits as well), or given.
\<close>

datatype 'a optional = Omitted | Undefined | Given 'a

record Subject =
  type :: string
  description :: string
  pose :: string
  position :: string
  expression :: string
  accessories :: "string list optional"

record Background =
  environment_type :: "string optional"
  elements :: "string list"
  depth_of_field :: string

record Camera =
  angle :: string
  distance :: string
  lens_type :: "string optional"
  focus :: string

record Resolution =
  width :: str_or_num
  height :: str_or_num
  aspect_ratio :: string
  dpi :: str_or_num
  label :: "string optional"

text \<open>The property \<^verbatim>\<open>size\<close> of an overlay is the field \<open>size'\<close>.\<close>

record TextOverlay =
  content :: string
  position :: string
  style :: string
  font_family :: string
  font_color :: string
  size' :: string
  opacity :: number
  rotation :: "number optional"

record ImageGenerationPrompt =
  scene :: string
  subjects :: "Subject list"
  style :: string
  lighting :: string
  mood :: string
  background :: Background
  composition :: string
  camera :: Camera
  color_palette :: "string list"
  props :: "string list optional"
  resolution :: Resolution
  text_overlays :: "TextOverlay list optional"
  negative_prompt :: "str_or_strs optional"
  seed :: "number optional"
  guidance_scale :: "number optional"
  num_inference_steps :: "number optional"
  model_identifier :: "string optional"

section \<open>JavaScript values\<close>

text \<open>
  A value read in depth: what an object literal denotes, and what a walk over an object
  graph finds. An object is the list of its own properties in insertion order.
\<close>

datatype prim = PUndefined | PNull | PBool bool | PNum number | PStr string

datatype jsval = Prim prim | JArr "jsval list" | JObj "(string \<times> jsval) list"

abbreviation JStr :: "string \<Rightarrow> jsval" where
  "JStr s \<equiv> Prim (PStr s)"

abbreviation JNum :: "number \<Rightarrow> jsval" where
  "JNum x \<equiv> Prim (PNum x)"

abbreviation JUndefined :: jsval where
  "JUndefined \<equiv> Prim PUndefined"

instance number :: countable
  by countable_datatype

instance prim :: countable
  by countable_datatype

instance jsval :: countable
  by countable_datatype

text \<open>Property lookup \<^verbatim>\<open>o[k]\<close> on own properties, and array indexing.\<close>

fun get :: "jsval \<Rightarrow> string \<Rightarrow> jsval option" where
  "get (JObj ps) k = map_of ps k"
| "get _ k = None"

fun item :: "jsval \<Rightarrow> nat \<Rightarrow> jsval option" where
  "item (JArr xs) i = (if i < length xs then Some (xs ! i) else None)"
| "item _ i = None"

text \<open>The object with the property \<open>k\<close> taken away.\<close>

fun without :: "string \<Rightarrow> jsval \<Rightarrow> jsval" where
  "without k (JObj ps) = JObj (filter (\<lambda>p. fst p \<noteq> k) ps)"
| "without k v = v"

section \<open>Object literals of the document model\<close>

text \<open>
  The properties an object literal writes: a property that is left out contributes
  nothing, every other one contributes its key and value, in the order written.
\<close>

fun present :: "(string \<times> jsval option) list \<Rightarrow> (string \<times> jsval) list" where
  "present [] = []"
| "present ((k, None) # es) = present es"
| "present ((k, Some v) # es) = (k, v) # present es"

fun opt :: "('a \<Rightarrow> jsval) \<Rightarrow> 'a optional \<Rightarrow> jsval option" where
  "opt f Omitted = None"
| "opt f Undefined = Some JUndefined"
| "opt f (Given x) = Some (f x)"

definition strs :: "string list \<Rightarrow> jsval" where
  "strs xs = JArr (map JStr xs)"

fun str_or_num_val :: "str_or_num \<Rightarrow> jsval" where
  "str_or_num_val (Str s) = JStr s"
| "str_or_num_val (Num x) = JNum x"

fun str_or_strs_val :: "str_or_strs \<Rightarrow> jsval" where
  "str_or_strs_val (One s) = JStr s"
| "str_or_strs_val (Many xs) = strs xs"

text \<open>
  The keys stand in the order in which the literal of \<^verbatim>\<open>src/index.ts\<close> writes them; a
  key that literal leaves out stands where the interface declares it.
\<close>

definition Subject_obj :: "Subject \<Rightarrow> jsval" where
  "Subject_obj s = JObj (present
     [(''description'', Some (JStr (description s))),
      (''expression'', Some (JStr (expression s))),
      (''pose'', Some (JStr (pose s))),
      (''position'', Some (JStr (Subject.position s))),
      (''type'', Some (JStr (type s))),
      (''accessories'', opt strs (accessories s))])"

definition Background_obj :: "Background \<Rightarrow> jsval" where
  "Background_obj b = JObj (present
     [(''environment_type'', opt JStr (environment_type b)),
      (''elements'', Some (strs (elements b))),
      (''depth_of_field'', Some (JStr (depth_of_field b)))])"

definition Camera_obj :: "Camera \<Rightarrow> jsval" where
  "Camera_obj c = JObj (present
     [(''angle'', Some (JStr (angle c))),
      (''distance'', Some (JStr (distance c))),
      (''focus'', Some (JStr (focus c))),
      (''lens_type'', opt JStr (lens_type c))])"

definition Resolution_obj :: "Resolution \<Rightarrow> jsval" where
  "Resolution_obj r = JObj (present
     [(''width'', Some (str_or_num_val (width r))),
      (''height'', Some (str_or_num_val (height r))),
      (''aspect_ratio'', Some (JStr (aspect_ratio r))),
      (''dpi'', Some (str_or_num_val (dpi r))),
      (''label'', opt JStr (label r))])"

definition TextOverlay_obj :: "TextOverlay \<Rightarrow> jsval" where
  "TextOverlay_obj t = JObj (present
     [(''content'', Some (JStr (content t))),
      (''position'', Some (JStr (TextOverlay.position t))),
      (''style'', Some (JStr (TextOverlay.style t))),
      (''size'', Some (JStr (size' t))),
      (''font_color'', Some (JStr (font_color t))),
      (''font_family'', Some (JStr (font_family t))),
      (''opacity'', Some (JNum (opacity t))),
      (''rotation'', opt JNum (rotation t))])"

definition prompt_entries :: "ImageGenerationPrompt \<Rightarrow> (string \<times> jsval option) list" where
  "prompt_entries V =
     [(''scene'', Some (JStr (scene V))),
      (''background'', Some (Background_obj (background V))),
      (''camera'', Some (Camera_obj (camera V))),
      (''color_palette'', Some (strs (color_palette V))),
      (''lighting'', Some (JStr (lighting V))),
      (''composition'', Some (JStr (composition V))),
      (''mood'', Some (JStr (mood V))),
      (''props'', opt strs (props V)),
      (''resolution'', Some (Resolution_obj (resolution V))),
      (''style'', Some (JStr (ImageGenerationPrompt.style V))),
      (''subjects'', Some (JArr (map Subject_obj (subjects V)))),
      (''text_overlays'', opt (\<lambda>ts. JArr (map TextOverlay_obj ts)) (text_overlays V)),
      (''negative_prompt'', opt str_or_strs_val (negative_prompt V)),
      (''seed'', opt JNum (seed V)),
      (''guidance_scale'', opt JNum (guidance_scale V)),
      (''num_inference_steps'', opt JNum (num_inference_steps V)),
      (''model_identifier'', opt JStr (model_identifier V))]"

definition prompt_obj :: "ImageGenerationPrompt \<Rightarrow> jsval" where
  "prompt_obj V = JObj (present (prompt_entries V))"

text \<open>\<^verbatim>\<open>const prompt: ImageGenerationPrompt = { ... }\<close> of \<^verbatim>\<open>src/index.ts\<close>.\<close>

definition prompt :: ImageGenerationPrompt where
  "prompt =
     \<lparr>scene = ''A red smoothie on a premium kitchen countertop'',
      subjects =
        [\<lparr>type = ''glass with smoothie'',
          description = ''A red smoothie in a glass'',
          pose = ''sitting'',
          position = ''middle-left midground'',
          expression = ''happy'',
          accessories = Omitted\<rparr>],
      style = ''HDR photography (high dynamic range)'',
      lighting = ''candlelight (warm, flickering, intimate)'',
      mood = ''cozy and comforting'',
      background =
        \<lparr>environment_type = Omitted,
         elements = [],
         depth_of_field = ''anamorphic bokeh (oval-shaped)''\<rparr>,
      composition = ''depth (foreground, middle ground, background layers)'',
      camera =
        \<lparr>angle = ''crane shot (camera moves vertically on a crane, implies changing perspective)'',
         distance = ''cutaway shot (briefly shows something other than main action)'',
         lens_type = Given ''prime lens (fixed focal length, often sharper)'',
         focus = ''follow focus (keeping a moving subject sharp)''\<rparr>,
      color_palette = [''white'', ''red'', ''black''],
      props = Given [''none''],
      resolution =
        \<lparr>width = Str ''4096'',
         height = Str ''4320'',
         aspect_ratio = ''16:9'',
         dpi = Str ''300 (Standard Print)'',
         label = Omitted\<rparr>,
      text_overlays =
        Given
          [\<lparr>content = ''A red smoothie on a premium kitchen countertop'',
            position = ''top-center edge'',
            style = ''bold'',
            font_family = ''Futura Condensed Bold'',
            font_color = ''gold'',
            size' = ''large'',
            opacity = Finite 0.8,
            rotation = Given (Finite (- 15))\<rparr>],
      negative_prompt = Omitted,
      seed = Omitted,
      guidance_scale = Given (Finite 10),
      num_inference_steps = Omitted,
      model_identifier = Omitted\<rparr>"

section \<open>The heap\<close>

text \<open>
  Objects and arrays live in cells; a property or an element holds a primitive or the
  address of a cell. The heap is the list of the cells allocated so far, a cell's address
  its index: allocation appends, and nothing in the script assigns to a property of an
  existing object.
\<close>

datatype val = VPrim prim | VRef nat

datatype cell = Object "(string \<times> val) list" | Array "val list"

type_synonym heap = "cell list"

fun traverse :: "('a \<Rightarrow> 'b option) \<Rightarrow> 'a list \<Rightarrow> 'b list option" where
  "traverse f [] = Some []"
| "traverse f (x # xs) =
     (case f x of
        None \<Rightarrow> None
      | Some y \<Rightarrow> (case traverse f xs of None \<Rightarrow> None | Some ys \<Rightarrow> Some (y # ys)))"

text \<open>
  Reading a value in depth, following at most \<open>n\<close> addresses along any path; \<open>None\<close>
  when an address dangles or the bound is reached.
\<close>

fun deref :: "nat \<Rightarrow> heap \<Rightarrow> val \<Rightarrow> jsval option" where
  "deref n h (VPrim p) = Some (Prim p)"
| "deref 0 h (VRef a) = None"
| "deref (Suc n) h (VRef a) =
     (if a < length h then
        (case h ! a of
           Array vs \<Rightarrow> map_option JArr (traverse (deref n h) vs)
         | Object ps \<Rightarrow>
             map_option JObj (traverse (\<lambda>(k, v). map_option (Pair k) (deref n h v)) ps))
      else None)"

text \<open>
  Evaluating a literal: the cells of the parts are allocated, then the cell of the whole.
  Addresses are names only; which of two cells comes first decides nothing.
\<close>

fun alloc :: "jsval \<Rightarrow> heap \<Rightarrow> val \<times> heap"
  and alloc_list :: "jsval list \<Rightarrow> heap \<Rightarrow> val list \<times> heap"
  and alloc_props :: "(string \<times> jsval) list \<Rightarrow> heap \<Rightarrow> (string \<times> val) list \<times> heap"
where
  "alloc (Prim p) h = (VPrim p, h)"
| "alloc (JArr ts) h =
     (case alloc_list ts h of (vs, h') \<Rightarrow> (VRef (length h'), h' @ [Array vs]))"
| "alloc (JObj ps) h =
     (case alloc_props ps h of (qs, h') \<Rightarrow> (VRef (length h'), h' @ [Object qs]))"
| "alloc_list [] h = ([], h)"
| "alloc_list (t # ts) h =
     (case alloc t h of (v, h1) \<Rightarrow>
        (case alloc_list ts h1 of (vs, h2) \<Rightarrow> (v # vs, h2)))"
| "alloc_props [] h = ([], h)"
| "alloc_props ((k, t) # ps) h =
     (case alloc t h of (v, h1) \<Rightarrow>
        (case alloc_props ps h1 of (qs, h2) \<Rightarrow> ((k, v) # qs, h2)))"

section \<open>The script of \<^verbatim>\<open>src/index.ts\<close>\<close>

definition schema_url :: string where
  "schema_url =
     ''https://raw.githubusercontent.com/xcaeser/generation-schemas/main/schemas/v1.0.0/image-generation.schema.json''"

text \<open>
  Defining a property on an object under construction: an existing key keeps its place
  and takes the new value, a new key goes to the end.
\<close>

fun set_prop :: "(string \<times> 'v) list \<Rightarrow> string \<Rightarrow> 'v \<Rightarrow> (string \<times> 'v) list" where
  "set_prop [] k v = [(k, v)]"
| "set_prop ((k', v') # ps) k v =
     (if k' = k then (k, v) # ps else (k', v') # set_prop ps k v)"

text \<open>The spread \<^verbatim>\<open>...src\<close>: every own property of \<open>src\<close>, in order, is defined on the target.\<close>

definition copy_data_properties ::
  "(string \<times> 'v) list \<Rightarrow> (string \<times> 'v) list \<Rightarrow> (string \<times> 'v) list" where
  "copy_data_properties target src = foldl (\<lambda>acc (k, v). set_prop acc k v) target src"

text \<open>
  \<^verbatim>\<open>{ $schema: "https://...", ...prompt }\<close>: a new object. The property values are copied
  as they are, so a nested object is shared with \<open>prompt\<close>, not copied. \<open>prompt\<close> is declared
  an object; on anything else the model stops.
\<close>

fun with_schema :: "heap \<Rightarrow> val \<Rightarrow> (val \<times> heap) option" where
  "with_schema h (VRef a) =
     (if a < length h then
        (case h ! a of
           Object ps \<Rightarrow>
             Some (VRef (length h),
               h @ [Object (copy_data_properties [(''$schema'', VPrim (PStr schema_url))] ps)])
         | Array vs \<Rightarrow> None)
      else None)"
| "with_schema h (VPrim p) = None"

text \<open>
  \<^verbatim>\<open>SuperJSON.stringify\<close> is a function of the package \<^verbatim>\<open>superjson\<close>, not of this
  repository. It walks the object graph it is handed and returns a string. The walk is
  \<open>deref\<close>, bounded by the number of cells; the text it produces for the value found is the
  parameter \<open>enc\<close>, whose first argument stands for whatever else the bytes may depend on
  (such as an order of keys). A function from the heap to a string changes no cell.
\<close>

definition stringify :: "('k \<Rightarrow> jsval \<Rightarrow> string) \<Rightarrow> 'k \<Rightarrow> heap \<Rightarrow> val \<Rightarrow> string option" where
  "stringify enc k h v = map_option (enc k) (deref (length h) h v)"

text \<open>
  The statements up to \<^verbatim>\<open>const json = SuperJSON.stringify({ ... })\<close>, for a literal that
  denotes the document \<open>V\<close>: the string, the heap it was computed in, and the address of
  \<open>prompt\<close>.
\<close>

definition serialize ::
  "('k \<Rightarrow> jsval \<Rightarrow> string) \<Rightarrow> 'k \<Rightarrow> ImageGenerationPrompt \<Rightarrow> (string \<times> heap \<times> val) option" where
  "serialize enc k V =
     (case alloc (prompt_obj V) [] of
        (p, h1) \<Rightarrow>
          (case with_schema h1 p of
             None \<Rightarrow> None
           | Some (q, h2) \<Rightarrow>
               (case stringify enc k h2 q of
                  None \<Rightarrow> None
                | Some json \<Rightarrow> Some (json, h2, p))))"

text \<open>
  How a run ends: normally, with the error of a rejected \<^verbatim>\<open>await\<close> that nothing catches,
  or \<open>Stuck\<close> where the model stopped (no run of the script does, see \<open>serialize_eq\<close>).
\<close>

datatype 'e outcome = Finished | Uncaught 'e | Stuck

text \<open>
  A run: how it ended, the world it left, and the calls of \<^verbatim>\<open>Bun.write\<close> it made, each with
  its path and data.
\<close>

record ('e, 'w) run =
  exit :: "'e outcome"
  world :: 'w
  calls :: "(string \<times> string) list"

text \<open>
  \<^verbatim>\<open>await Bun.write(Bun.file("prompt.json"), json)\<close>. \<^verbatim>\<open>Bun.write\<close> belongs to the runtime:
  it is the parameter \<open>writer\<close>, which takes the world, a path and the data and returns the
  bytes written or an error, and the world it leaves. The script is written over any type
  of worlds and of errors: it has no way to look into either.
\<close>

definition script ::
  "('k \<Rightarrow> jsval \<Rightarrow> string) \<Rightarrow> 'k \<Rightarrow> ('w \<Rightarrow> string \<Rightarrow> string \<Rightarrow> ('e + nat) \<times> 'w) \<Rightarrow> 'w \<Rightarrow>
     ImageGenerationPrompt \<Rightarrow> ('e, 'w) run" where
  "script enc k writer w V =
     (case serialize enc k V of
        None \<Rightarrow> \<lparr>exit = Stuck, world = w, calls = []\<rparr>
      | Some (json, h, p) \<Rightarrow>
          (case writer w ''prompt.json'' json of
             (Inl e, w') \<Rightarrow>
               \<lparr>exit = Uncaught e, world = w', calls = [(''prompt.json'', json)]\<rparr>
           | (Inr n, w') \<Rightarrow>
               \<lparr>exit = Finished, world = w', calls = [(''prompt.json'', json)]\<rparr>))"

definition main ::
  "('k \<Rightarrow> jsval \<Rightarrow> string) \<Rightarrow> 'k \<Rightarrow> ('w \<Rightarrow> string \<Rightarrow> string \<Rightarrow> ('e + nat) \<times> 'w) \<Rightarrow> 'w \<Rightarrow> ('e, 'w) run" where
  "main enc k writer w = script enc k writer w prompt"

section \<open>Decoders and file systems\<close>

text \<open>
  A decoder is compatible with the encoder when it gives back the value that was encoded,
  whatever bytes the encoder chose for it.
\<close>

definition compatible :: "('k \<Rightarrow> jsval \<Rightarrow> string) \<Rightarrow> (string \<Rightarrow> jsval option) \<Rightarrow> bool" where
  "compatible enc dec \<longleftrightarrow> (\<forall>k t. dec (enc k t) = Some t)"

text \<open>
  A pair of an encoder and a compatible decoder, to have one at hand: the value and the
  choice are numbered, the number is written in unary. It shares nothing with the format
  of \<^verbatim>\<open>superjson\<close> but that decoding undoes encoding.
\<close>

definition unary_enc :: "nat \<Rightarrow> jsval \<Rightarrow> string" where
  "unary_enc k t = replicate (to_nat (t, k)) (CHR ''1'')"

definition unary_dec :: "string \<Rightarrow> jsval option" where
  "unary_dec s = Some (fst (from_nat (length s) :: jsval \<times> nat))"

text \<open>
  Modelled from the spec: \<^verbatim>\<open>Bun.write\<close> and the file system, which belong to the runtime.
  The write goes to a path relative to the working directory, overwrites what is there,
  and has no protection against a partial write; it fails when the target is not
  writable, the path is invalid or the disk is full. The world says which of these will
  happen: a refused write touches nothing, an interrupted one has replaced the target by
  the bytes that reached it.
\<close>

datatype io_error = EACCES | ENOENT | ENOSPC

datatype fault = NoFault | Refused io_error | Interrupted io_error nat

record fs_world =
  cwd :: string
  files :: "string \<rightharpoonup> string"
  argv :: "string list"
  env :: "string \<rightharpoonup> string"
  fault :: fault

definition resolve :: "string \<Rightarrow> string \<Rightarrow> string" where
  "resolve dir p = (case p of CHR ''/'' # _ \<Rightarrow> p | _ \<Rightarrow> dir @ ''/'' @ p)"

definition bun_write :: "fs_world \<Rightarrow> string \<Rightarrow> string \<Rightarrow> (io_error + nat) \<times> fs_world" where
  "bun_write w p d =
     (case fault w of
        NoFault \<Rightarrow> (Inr (length d), w\<lparr>files := (files w)(resolve (cwd w) p \<mapsto> d)\<rparr>)
      | Refused e \<Rightarrow> (Inl e, w)
      | Interrupted e n \<Rightarrow> (Inl e, w\<lparr>files := (files w)(resolve (cwd w) p \<mapsto> take n d)\<rparr>))"

section \<open>What the claims speak of\<close>

text \<open>
  The document \<open>V\<close> with one property added in front of its own, \<^verbatim>\<open>$schema\<close>, bound to
  the schema URL: the value the decoded artifact is compared with.
\<close>

definition document :: "ImageGenerationPrompt \<Rightarrow> jsval" where
  "document V = JObj ((''$schema'', JStr schema_url) # present (prompt_entries V))"

text \<open>
  The state after \<^verbatim>\<open>const prompt = { ... }\<close>, before anything else has run: the address
  bound to \<open>prompt\<close> and the heap.
\<close>

definition prompt_ref :: "ImageGenerationPrompt \<Rightarrow> val" where
  "prompt_ref V = fst (alloc (prompt_obj V) [])"

definition heap_before :: "ImageGenerationPrompt \<Rightarrow> heap" where
  "heap_before V = snd (alloc (prompt_obj V) [])"

text \<open>Worlds and documents to run the script in.\<close>

definition workdir :: fs_world where
  "workdir =
     \<lparr>cwd = ''/work'',
      files = [''/work/prompt.json'' \<mapsto> ''stale'', ''/work/notes.txt'' \<mapsto> ''keep''],
      argv = [''bun'', ''run'', ''src/index.ts''],
      env = [''HOME'' \<mapsto> ''/root''],
      fault = NoFault\<rparr>"

definition read_only :: fs_world where
  "read_only = workdir\<lparr>fault := Refused EACCES\<rparr>"

definition full_disk :: fs_world where
  "full_disk = workdir\<lparr>files := Map.empty, fault := Interrupted ENOSPC 16\<rparr>"

definition elsewhere :: fs_world where
  "elsewhere =
     \<lparr>cwd = ''/tmp'',
      files = Map.empty,
      argv = [''bun'', ''src/index.ts'', ''--pretty''],
      env = [''NODE_ENV'' \<mapsto> ''production''],
      fault = Refused ENOENT\<rparr>"

definition unpopulated :: ImageGenerationPrompt where
  "unpopulated = prompt\<lparr>subjects := []\<rparr>"

definition bare :: ImageGenerationPrompt where
  "bare = prompt\<lparr>props := Omitted, text_overlays := Omitted\<rparr>"

definition banner :: "number \<Rightarrow> TextOverlay" where
  "banner x =
     \<lparr>content = ''SALE'',
      position = ''center of image'',
      style = ''bold'',
      font_family = ''Impact'',
      font_color = ''white'',
      size' = ''24pt'',
      opacity = x,
      rotation = Omitted\<rparr>"

definition edge_opacities :: ImageGenerationPrompt where
  "edge_opacities =
     prompt\<lparr>text_overlays :=
       Given [banner (Finite 0), banner (Finite 1), banner (Finite 1.5), banner (Finite (- 0.2))]\<rparr>"

section \<open>Evaluating a literal and reading it back\<close>

lemma compatible_unary: "compatible unary_enc unary_dec"
  by (simp add: compatible_def unary_enc_def unary_dec_def)

text \<open>
  A literal evaluated in any heap extends that heap, and the value it returns reads back
  as the literal, in the heap it leaves and in every extension of it, as soon as the bound
  is the number of cells.
\<close>

lemma alloc_ok:
  "alloc t h = (v, h') \<Longrightarrow>
     (\<exists>ext. h' = h @ ext) \<and> (\<forall>n ext. length h' \<le> n \<longrightarrow> deref n (h' @ ext) v = Some t)"
  "alloc_list ts h = (vs, h') \<Longrightarrow>
     (\<exists>ext. h' = h @ ext) \<and>
     (\<forall>n ext. length h' \<le> n \<longrightarrow> traverse (deref n (h' @ ext)) vs = Some ts)"
  "alloc_props ps h = (qs, h') \<Longrightarrow>
     (\<exists>ext. h' = h @ ext) \<and> map fst qs = map fst ps \<and>
     (\<forall>n ext. length h' \<le> n \<longrightarrow>
        traverse (\<lambda>(k, v). map_option (Pair k) (deref n (h' @ ext) v)) qs = Some ps)"
proof (induction t h and ts h and ps h arbitrary: v h' and vs h' and qs h'
    rule: alloc_alloc_list_alloc_props.induct)
  case (1 p h)
  then show ?case by auto
next
  case (2 ts h)
  obtain vs h1 where a: "alloc_list ts h = (vs, h1)" by (cases "alloc_list ts h")
  from "2.IH" [OF a] obtain ext where e: "h1 = h @ ext"
    and d: "\<And>n ext. length h1 \<le> n \<Longrightarrow> traverse (deref n (h1 @ ext)) vs = Some ts"
    by blast
  from "2.prems" a have v: "v = VRef (length h1)" and h': "h' = h1 @ [Array vs]" by auto
  have "\<exists>ext. h' = h @ ext" using e h' by simp
  moreover have "deref n (h' @ x) v = Some (JArr ts)" if "length h' \<le> n" for n x
  proof -
    from that h' obtain m where n: "n = Suc m" and m: "length h1 \<le> m"
      by (cases n) auto
    have "traverse (deref m (h1 @ ([Array vs] @ x))) vs = Some ts" using d [OF m] .
    then show ?thesis using n v h' by (simp add: nth_append)
  qed
  ultimately show ?case by blast
next
  case (3 ps h)
  obtain qs h1 where a: "alloc_props ps h = (qs, h1)" by (cases "alloc_props ps h")
  from "3.IH" [OF a] obtain ext where e: "h1 = h @ ext"
    and d: "\<And>n ext. length h1 \<le> n \<Longrightarrow>
       traverse (\<lambda>(k, v). map_option (Pair k) (deref n (h1 @ ext) v)) qs = Some ps"
    by blast
  from "3.prems" a have v: "v = VRef (length h1)" and h': "h' = h1 @ [Object qs]" by auto
  have "\<exists>ext. h' = h @ ext" using e h' by simp
  moreover have "deref n (h' @ x) v = Some (JObj ps)" if "length h' \<le> n" for n x
  proof -
    from that h' obtain m where n: "n = Suc m" and m: "length h1 \<le> m"
      by (cases n) auto
    have "traverse (\<lambda>(k, v). map_option (Pair k) (deref m (h1 @ ([Object qs] @ x)) v)) qs = Some ps"
      using d [OF m] .
    then show ?thesis using n v h' by (simp add: nth_append)
  qed
  ultimately show ?case by blast
next
  case (4 h)
  then show ?case by auto
next
  case (5 t ts h)
  obtain v1 h1 where a: "alloc t h = (v1, h1)" by (cases "alloc t h")
  obtain vs2 h2 where b: "alloc_list ts h1 = (vs2, h2)" by (cases "alloc_list ts h1")
  from "5.IH"(1) [OF a] obtain e1 where e1: "h1 = h @ e1"
    and d1: "\<And>n ext. length h1 \<le> n \<Longrightarrow> deref n (h1 @ ext) v1 = Some t"
    by blast
  from "5.IH"(2) [OF a [symmetric] b] obtain e2 where e2: "h2 = h1 @ e2"
    and d2: "\<And>n ext. length h2 \<le> n \<Longrightarrow> traverse (deref n (h2 @ ext)) vs2 = Some ts"
    by blast
  from "5.prems" a b have vs: "vs = v1 # vs2" and h': "h' = h2" by auto
  have "\<exists>ext. h' = h @ ext" using e1 e2 h' by simp
  moreover have "traverse (deref n (h' @ x)) vs = Some (t # ts)" if "length h' \<le> n" for n x
  proof -
    have "length h1 \<le> n" using that h' e2 by simp
    from d1 [OF this, of "e2 @ x"] have "deref n (h' @ x) v1 = Some t"
      using h' e2 by simp
    moreover have "traverse (deref n (h' @ x)) vs2 = Some ts"
      using d2 [of n x] that h' by simp
    ultimately show ?thesis using vs by simp
  qed
  ultimately show ?case by blast
next
  case (6 h)
  then show ?case by auto
next
  case (7 k t ps h)
  obtain v1 h1 where a: "alloc t h = (v1, h1)" by (cases "alloc t h")
  obtain qs2 h2 where b: "alloc_props ps h1 = (qs2, h2)" by (cases "alloc_props ps h1")
  from "7.IH"(1) [OF a] obtain e1 where e1: "h1 = h @ e1"
    and d1: "\<And>n ext. length h1 \<le> n \<Longrightarrow> deref n (h1 @ ext) v1 = Some t"
    by blast
  from "7.IH"(2) [OF a [symmetric] b] obtain e2 where e2: "h2 = h1 @ e2"
    and k2: "map fst qs2 = map fst ps"
    and d2: "\<And>n ext. length h2 \<le> n \<Longrightarrow>
      traverse (\<lambda>(k, v). map_option (Pair k) (deref n (h2 @ ext) v)) qs2 = Some ps"
    by blast
  from "7.prems" a b have qs: "qs = (k, v1) # qs2" and h': "h' = h2" by auto
  have "\<exists>ext. h' = h @ ext" using e1 e2 h' by simp
  moreover have "map fst qs = map fst ((k, t) # ps)" using qs k2 by simp
  moreover have "traverse (\<lambda>(k, v). map_option (Pair k) (deref n (h' @ x) v)) qs = Some ((k, t) # ps)"
    if "length h' \<le> n" for n x
  proof -
    have "length h1 \<le> n" using that h' e2 by simp
    from d1 [OF this, of "e2 @ x"] have "deref n (h' @ x) v1 = Some t"
      using h' e2 by simp
    moreover have "traverse (\<lambda>(k, v). map_option (Pair k) (deref n (h' @ x) v)) qs2 = Some ps"
      using d2 [of n x] that h' by simp
    ultimately show ?thesis using qs by simp
  qed
  ultimately show ?case by blast
qed

section \<open>The keys of a document\<close>

lemma keys_present: "map fst (present es) = map fst (filter (\<lambda>e. snd e \<noteq> None) es)"
  by (induction es rule: present.induct) auto

lemma distinct_present: "distinct (map fst es) \<Longrightarrow> distinct (map fst (present es))"
  by (simp add: keys_present distinct_map_filter)

lemma notin_present: "k \<notin> set (map fst es) \<Longrightarrow> k \<notin> set (map fst (present es))"
  by (auto simp: keys_present)

lemma prompt_keys:
  "map fst (prompt_entries V) =
     [''scene'', ''background'', ''camera'', ''color_palette'', ''lighting'', ''composition'',
      ''mood'', ''props'', ''resolution'', ''style'', ''subjects'', ''text_overlays'',
      ''negative_prompt'', ''seed'', ''guidance_scale'', ''num_inference_steps'',
      ''model_identifier'']"
  by (simp add: prompt_entries_def)

lemma prompt_keys_distinct: "distinct (map fst (present (prompt_entries V)))"
  by (rule distinct_present) (simp add: prompt_keys)

lemma prompt_keys_schema: "''$schema'' \<notin> set (map fst (present (prompt_entries V)))"
  by (rule notin_present) (simp add: prompt_keys)

section \<open>The spread and the serializer\<close>

lemma set_prop_fresh: "k \<notin> set (map fst ps) \<Longrightarrow> set_prop ps k v = ps @ [(k, v)]"
  by (induction ps) auto

lemma copy_fresh:
  "distinct (map fst src) \<Longrightarrow> set (map fst src) \<inter> set (map fst target) = {} \<Longrightarrow>
     copy_data_properties target src = target @ src"
proof (induction src arbitrary: target)
  case Nil
  then show ?case by (simp add: copy_data_properties_def)
next
  case (Cons p src)
  obtain k v where p: "p = (k, v)" by (cases p)
  from Cons.prems p have fresh: "k \<notin> set (map fst target)" by auto
  have "copy_data_properties target (p # src) = copy_data_properties (target @ [(k, v)]) src"
    using p fresh by (simp add: copy_data_properties_def set_prop_fresh)
  also have "\<dots> = (target @ [(k, v)]) @ src"
    using Cons.prems p by (intro Cons.IH) auto
  finally show ?case using p by simp
qed

text \<open>
  The spread on the heap the literal leaves: the keys of a document are distinct and none
  is \<^verbatim>\<open>$schema\<close>, so the new object has \<^verbatim>\<open>$schema\<close> first and then the properties of
  \<open>prompt\<close>, each with the value it has there.
\<close>

lemma with_schema_eq:
  assumes a: "alloc_props (present (prompt_entries V)) [] = (qs, h0)"
  shows "with_schema (h0 @ [Object qs]) (VRef (length h0)) =
      Some (VRef (Suc (length h0)),
        h0 @ [Object qs, Object ((''$schema'', VPrim (PStr schema_url)) # qs)])"
proof -
  from alloc_ok(3) [OF a] have keys: "map fst qs = map fst (present (prompt_entries V))"
    by blast
  have "copy_data_properties [(''$schema'', VPrim (PStr schema_url))] qs =
      (''$schema'', VPrim (PStr schema_url)) # qs"
    using copy_fresh [of qs "[(''$schema'', VPrim (PStr schema_url))]"]
      prompt_keys_distinct [of V] prompt_keys_schema [of V] keys by simp
  then show ?thesis by simp
qed

lemma deref_document:
  assumes a: "alloc_props (present (prompt_entries V)) [] = (qs, h0)"
  shows "deref (Suc (Suc (length h0)))
      (h0 @ [Object qs, Object ((''$schema'', VPrim (PStr schema_url)) # qs)])
      (VRef (Suc (length h0))) = Some (document V)"
proof -
  let ?new = "Object ((''$schema'', VPrim (PStr schema_url)) # qs)"
  from alloc_ok(3) [OF a]
  have d: "\<And>n ext. length h0 \<le> n \<Longrightarrow>
      traverse (\<lambda>(k, v). map_option (Pair k) (deref n (h0 @ ext) v)) qs =
        Some (present (prompt_entries V))"
    by blast
  have "traverse (\<lambda>(k, v). map_option (Pair k) (deref (Suc (length h0)) (h0 @ [Object qs, ?new]) v)) qs
      = Some (present (prompt_entries V))"
    using d [of "Suc (length h0)" "[Object qs, ?new]"] by simp
  then show ?thesis by (simp add: nth_append document_def)
qed

text \<open>
  The serializer on any document: the heap after the literal, one more cell for the
  object with \<^verbatim>\<open>$schema\<close>, and the encoder applied to \<open>document V\<close>.
\<close>

lemma serialize_eq:
  assumes a: "alloc_props (present (prompt_entries V)) [] = (qs, h0)"
  shows "serialize enc k V =
     Some (enc k (document V),
           h0 @ [Object qs, Object ((''$schema'', VPrim (PStr schema_url)) # qs)],
           VRef (length h0))"
proof -
  have al: "alloc (prompt_obj V) [] = (VRef (length h0), h0 @ [Object qs])"
    using a by (simp add: prompt_obj_def)
  show ?thesis
    unfolding serialize_def al using with_schema_eq [OF a] deref_document [OF a]
    by (simp add: stringify_def)
qed

lemma serialize_json: "\<exists>h p. serialize enc k V = Some (enc k (document V), h, p)"
proof -
  obtain qs h0 where "alloc_props (present (prompt_entries V)) [] = (qs, h0)"
    by (cases "alloc_props (present (prompt_entries V)) []")
  from serialize_eq [OF this, of enc k] show ?thesis by blast
qed

lemma script_eq:
  "script enc k writer w V =
     (case writer w ''prompt.json'' (enc k (document V)) of
        (Inl e, w') \<Rightarrow>
          \<lparr>exit = Uncaught e, world = w', calls = [(''prompt.json'', enc k (document V))]\<rparr>
      | (Inr n, w') \<Rightarrow>
          \<lparr>exit = Finished, world = w', calls = [(''prompt.json'', enc k (document V))]\<rparr>)"
proof -
  from serialize_json [of enc k V]
  obtain h p where "serialize enc k V = Some (enc k (document V), h, p)"
    by blast
  then show ?thesis by (simp add: script_def)
qed

lemma document_schema: "get (document V) ''$schema'' = Some (JStr schema_url)"
  by (simp add: document_def)

lemma document_without: "without ''$schema'' (document V) = prompt_obj V"
proof -
  have "filter (\<lambda>p. fst p \<noteq> ''$schema'') (present (prompt_entries V)) = present (prompt_entries V)"
    using prompt_keys_schema [of V] by (intro filter_True) force
  then show ?thesis by (simp add: document_def prompt_obj_def)
qed

lemma prompt_obj_no_schema: "get (prompt_obj V) ''$schema'' = None"
  using prompt_keys_schema [of V] by (simp add: prompt_obj_def map_of_eq_None_iff)

section \<open>Reading the document\<close>

lemma map_of_present:
  "distinct (map fst es) \<Longrightarrow>
     map_of (present es) k = (case map_of es k of Some (Some v) \<Rightarrow> Some v | _ \<Rightarrow> None)"
proof (induction es rule: present.induct)
  case 1
  then show ?case by simp
next
  case (2 k' es)
  then have "k' \<notin> set (map fst (present es))" by (intro notin_present) simp
  then have "map_of (present es) k' = None" by (simp add: map_of_eq_None_iff)
  moreover from 2 have "map_of es k' = None" by (simp add: map_of_eq_None_iff)
  ultimately show ?case using 2 by simp
next
  case (3 k' v es)
  then show ?case by simp
qed

lemma get_document:
  "k \<noteq> ''$schema'' \<Longrightarrow>
     get (document V) k =
       (case map_of (prompt_entries V) k of Some (Some v) \<Rightarrow> Some v | _ \<Rightarrow> None)"
  by (simp add: document_def map_of_present prompt_keys)

lemma get_text_overlays:
  "get (document V) ''text_overlays'' = opt (\<lambda>ts. JArr (map TextOverlay_obj ts)) (text_overlays V)"
  by (simp add: get_document prompt_entries_def split: option.splits)

lemma get_subjects: "get (document V) ''subjects'' = Some (JArr (map Subject_obj (subjects V)))"
  by (simp add: get_document prompt_entries_def)

lemma get_resolution: "get (document V) ''resolution'' = Some (Resolution_obj (resolution V))"
  by (simp add: get_document prompt_entries_def)

lemma get_background: "get (document V) ''background'' = Some (Background_obj (background V))"
  by (simp add: get_document prompt_entries_def)

lemma get_props: "get (document V) ''props'' = opt strs (props V)"
  by (simp add: get_document prompt_entries_def split: option.splits)

lemma get_negative_prompt:
  "get (document V) ''negative_prompt'' = opt str_or_strs_val (negative_prompt V)"
  by (simp add: get_document prompt_entries_def split: option.splits)

lemma get_seed: "get (document V) ''seed'' = opt JNum (seed V)"
  by (simp add: get_document prompt_entries_def split: option.splits)

lemma get_num_inference_steps:
  "get (document V) ''num_inference_steps'' = opt JNum (num_inference_steps V)"
  by (simp add: get_document prompt_entries_def split: option.splits)

lemma get_model_identifier:
  "get (document V) ''model_identifier'' = opt JStr (model_identifier V)"
  by (simp add: get_document prompt_entries_def split: option.splits)

lemma get_opacity: "get (TextOverlay_obj t) ''opacity'' = Some (JNum (opacity t))"
  by (simp add: TextOverlay_obj_def)

lemma get_rotation: "get (TextOverlay_obj t) ''rotation'' = opt JNum (rotation t)"
  by (cases "rotation t") (simp_all add: TextOverlay_obj_def)

lemma get_label: "get (Resolution_obj r) ''label'' = opt JStr (label r)"
  by (cases "label r") (simp_all add: Resolution_obj_def)

lemma get_accessories: "get (Subject_obj s) ''accessories'' = opt strs (accessories s)"
  by (cases "accessories s") (simp_all add: Subject_obj_def)

lemma get_environment_type:
  "get (Background_obj b) ''environment_type'' = opt JStr (environment_type b)"
  by (cases "environment_type b") (simp_all add: Background_obj_def)

text \<open>The document of the literal in \<^verbatim>\<open>src/index.ts\<close>, written out.\<close>

lemma document_prompt:
  "document prompt =
     JObj
      [(''$schema'',
        JStr ''https://raw.githubusercontent.com/xcaeser/generation-schemas/main/schemas/v1.0.0/image-generation.schema.json''),
       (''scene'', JStr ''A red smoothie on a premium kitchen countertop''),
       (''background'',
        JObj [(''elements'', JArr []), (''depth_of_field'', JStr ''anamorphic bokeh (oval-shaped)'')]),
       (''camera'',
        JObj
         [(''angle'',
           JStr ''crane shot (camera moves vertically on a crane, implies changing perspective)''),
          (''distance'', JStr ''cutaway shot (briefly shows something other than main action)''),
          (''focus'', JStr ''follow focus (keeping a moving subject sharp)''),
          (''lens_type'', JStr ''prime lens (fixed focal length, often sharper)'')]),
       (''color_palette'', JArr [JStr ''white'', JStr ''red'', JStr ''black'']),
       (''lighting'', JStr ''candlelight (warm, flickering, intimate)''),
       (''composition'', JStr ''depth (foreground, middle ground, background layers)''),
       (''mood'', JStr ''cozy and comforting''),
       (''props'', JArr [JStr ''none'']),
       (''resolution'',
        JObj
         [(''width'', JStr ''4096''), (''height'', JStr ''4320''), (''aspect_ratio'', JStr ''16:9''),
          (''dpi'', JStr ''300 (Standard Print)'')]),
       (''style'', JStr ''HDR photography (high dynamic range)''),
       (''subjects'',
        JArr
         [JObj
           [(''description'', JStr ''A red smoothie in a glass''), (''expression'', JStr ''happy''),
            (''pose'', JStr ''sitting''), (''position'', JStr ''middle-left midground''),
            (''type'', JStr ''glass with smoothie'')]]),
       (''text_overlays'',
        JArr
         [JObj
           [(''content'', JStr ''A red smoothie on a premium kitchen countertop''),
            (''position'', JStr ''top-center edge''), (''style'', JStr ''bold''),
            (''size'', JStr ''large''), (''font_color'', JStr ''gold''),
            (''font_family'', JStr ''Futura Condensed Bold''), (''opacity'', JNum (Finite 0.8)),
            (''rotation'', JNum (Finite (- 15)))]]),
       (''guidance_scale'', JNum (Finite 10))]"
  by (simp add: document_def prompt_entries_def prompt_def schema_url_def Background_obj_def
      Camera_obj_def Resolution_obj_def Subject_obj_def TextOverlay_obj_def strs_def)

section \<open>Runs\<close>

lemma script_calls: "calls (script enc k writer w V) = [(''prompt.json'', enc k (document V))]"
  by (simp add: script_eq split: prod.splits sum.splits)

lemma script_world:
  "world (script enc k writer w V) = snd (writer w ''prompt.json'' (enc k (document V)))"
  by (simp add: script_eq split: prod.splits sum.splits)

lemma script_exit:
  "exit (script enc k writer w V) =
     (case fst (writer w ''prompt.json'' (enc k (document V))) of
        Inl e \<Rightarrow> Uncaught e | Inr n \<Rightarrow> Finished)"
  by (simp add: script_eq split: prod.splits sum.splits)

lemma decode_document: "compatible enc dec \<Longrightarrow> dec (enc k (document V)) = Some (document V)"
  by (simp add: compatible_def)

text \<open>The reference write in the worlds above.\<close>

lemma resolve_work: "resolve ''/work'' ''prompt.json'' = ''/work/prompt.json''"
  by (simp add: resolve_def)

lemma bun_write_workdir:
  "bun_write workdir ''prompt.json'' d =
     (Inr (length d), workdir\<lparr>files := (files workdir)(''/work/prompt.json'' \<mapsto> d)\<rparr>)"
  by (simp add: bun_write_def workdir_def resolve_work)

lemma bun_write_read_only: "bun_write read_only ''prompt.json'' d = (Inl EACCES, read_only)"
  by (simp add: bun_write_def read_only_def)

lemma bun_write_full_disk:
  "bun_write full_disk ''prompt.json'' d =
     (Inl ENOSPC, full_disk\<lparr>files := (files full_disk)(''/work/prompt.json'' \<mapsto> take 16 d)\<rparr>)"
  by (simp add: bun_write_def full_disk_def workdir_def resolve_work)

section \<open>The claims\<close>

text \<open>
  C1. For every document \<open>V\<close> of the declared type, and every decoder compatible with the
  encoder: serializing \<open>V\<close> succeeds, and the string decodes to \<open>document V\<close>, which has
  \<^verbatim>\<open>$schema\<close> bound to the schema URL and, with that one property taken away, is the
  object of \<open>V\<close>, which has no property \<^verbatim>\<open>$schema\<close> of its own.
\<close>

theorem roundtrip_adds_schema:
  assumes "compatible enc dec"
  shows "\<exists>json h p.
     serialize enc k V = Some (json, h, p) \<and>
     dec json = Some (document V) \<and>
     get (document V) ''$schema'' = Some (JStr schema_url) \<and>
     without ''$schema'' (document V) = prompt_obj V \<and>
     get (prompt_obj V) ''$schema'' = None"
proof -
  from serialize_json [of enc k V]
  obtain h p where s: "serialize enc k V = Some (enc k (document V), h, p)"
    by blast
  have "dec (enc k (document V)) = Some (document V)"
    using assms by (rule decode_document)
  with s document_schema document_without prompt_obj_no_schema show ?thesis by blast
qed

theorem roundtrip_adds_schema_witness:
  "compatible unary_enc unary_dec \<and>
   (\<exists>json h p.
     serialize unary_enc 3 prompt = Some (json, h, p) \<and>
     unary_dec json = Some (document prompt) \<and>
     get (document prompt) ''$schema'' = Some (JStr schema_url) \<and>
     without ''$schema'' (document prompt) = prompt_obj prompt \<and>
     get (prompt_obj prompt) ''$schema'' = None)"
  using compatible_unary roundtrip_adds_schema [OF compatible_unary, of 3 prompt]
  by (intro conjI)

text \<open>
  C3, as far as the script decides it. When the write fails, the run ends with the very
  error of the write, uncaught; the script has called \<^verbatim>\<open>Bun.write\<close> once and not again,
  and the world it leaves is the world that failed write left, nothing removed and nothing
  completed. Whether the target exists afterwards is therefore the write's doing.
\<close>

theorem failed_write_propagates:
  assumes "fst (writer w ''prompt.json'' (enc k (document V))) = Inl e"
  shows "exit (script enc k writer w V) = Uncaught e \<and>
     calls (script enc k writer w V) = [(''prompt.json'', enc k (document V))] \<and>
     world (script enc k writer w V) = snd (writer w ''prompt.json'' (enc k (document V)))"
  using assms by (simp add: script_calls script_world script_exit)

theorem failed_write_propagates_witness:
  "fst (bun_write read_only ''prompt.json'' (unary_enc 0 (document prompt))) = Inl EACCES \<and>
   exit (script unary_enc 0 bun_write read_only prompt) = Uncaught EACCES \<and>
   calls (script unary_enc 0 bun_write read_only prompt) =
     [(''prompt.json'', unary_enc 0 (document prompt))] \<and>
   world (script unary_enc 0 bun_write read_only prompt) = read_only"
proof -
  have f: "fst (bun_write read_only ''prompt.json'' (unary_enc 0 (document prompt))) = Inl EACCES"
    by (simp add: bun_write_read_only)
  have g: "snd (bun_write read_only ''prompt.json'' (unary_enc 0 (document prompt))) = read_only"
    by (simp add: bun_write_read_only)
  note t = failed_write_propagates [of bun_write read_only unary_enc 0 prompt EACCES, OF f]
  show ?thesis using f t by (simp only: g simp_thms)
qed

text \<open>
  C3 as stated also says that a failed run produces no artifact. On a full disk the write
  is interrupted after it has replaced the target: no \<^verbatim>\<open>/work/prompt.json\<close> before the
  run, the run fails with \<open>ENOSPC\<close>, and the file is there afterwards, holding the first
  bytes of the string.
\<close>

theorem failed_run_leaves_partial_file:
  "files full_disk ''/work/prompt.json'' = None \<and>
   exit (main unary_enc 0 bun_write full_disk) = Uncaught ENOSPC \<and>
   files (world (main unary_enc 0 bun_write full_disk)) ''/work/prompt.json'' =
     Some (take 16 (unary_enc 0 (document prompt)))"
proof -
  have a: "files full_disk ''/work/prompt.json'' = None"
    by (simp add: full_disk_def workdir_def)
  have e: "exit (main unary_enc 0 bun_write full_disk) = Uncaught ENOSPC"
    by (simp add: main_def script_exit bun_write_full_disk)
  have w: "files (world (main unary_enc 0 bun_write full_disk)) ''/work/prompt.json'' =
     Some (take 16 (unary_enc 0 (document prompt)))"
    by (simp add: main_def script_world bun_write_full_disk)
  from a e w show ?thesis by (intro conjI)
qed

text \<open>
  C4. Serializing any document leaves \<open>prompt\<close> as it was. The spread allocates one new
  cell, at an address that did not exist before and is not the address of \<open>prompt\<close>; the
  heap after serialization is the heap before it with that cell appended, so every cell
  of the caller's document is the same cell; and \<open>prompt\<close> reads, in depth, as the same
  value before and after.
\<close>

theorem caller_document_unchanged:
  "\<exists>json h c.
     serialize enc k V = Some (json, h, prompt_ref V) \<and>
     with_schema (heap_before V) (prompt_ref V) = Some (VRef (length (heap_before V)), h) \<and>
     h = heap_before V @ [c] \<and>
     prompt_ref V \<noteq> VRef (length (heap_before V)) \<and>
     deref (length (heap_before V)) (heap_before V) (prompt_ref V) = Some (prompt_obj V) \<and>
     deref (length h) h (prompt_ref V) = Some (prompt_obj V) \<and>
     deref (length h) h (VRef (length (heap_before V))) = Some (document V)"
proof -
  obtain qs h0 where a: "alloc_props (present (prompt_entries V)) [] = (qs, h0)"
    by (cases "alloc_props (present (prompt_entries V)) []")
  let ?new = "Object ((''$schema'', VPrim (PStr schema_url)) # qs)"
  let ?h1 = "h0 @ [Object qs]"
  let ?h2 = "h0 @ [Object qs, ?new]"
  have al: "alloc (prompt_obj V) [] = (VRef (length h0), ?h1)"
    using a by (simp add: prompt_obj_def)
  then have p: "prompt_ref V = VRef (length h0)" and h1: "heap_before V = ?h1"
    by (simp_all add: prompt_ref_def heap_before_def)
  from alloc_ok(1) [OF al]
  have d: "\<And>n ext. length ?h1 \<le> n \<Longrightarrow> deref n (?h1 @ ext) (VRef (length h0)) = Some (prompt_obj V)"
    by blast
  have d1: "deref (length ?h1) ?h1 (VRef (length h0)) = Some (prompt_obj V)"
    using d [of "length ?h1" "[]"] by simp
  have d2: "deref (length ?h2) ?h2 (VRef (length h0)) = Some (prompt_obj V)"
    using d [of "length ?h2" "[?new]"] by simp
  have d3: "deref (length ?h2) ?h2 (VRef (length ?h1)) = Some (document V)"
    using deref_document [OF a] by simp
  have s: "serialize enc k V = Some (enc k (document V), ?h2, VRef (length h0))"
    by (rule serialize_eq [OF a])
  have w: "with_schema ?h1 (VRef (length h0)) = Some (VRef (length ?h1), ?h2)"
    using with_schema_eq [OF a] by simp
  have e: "?h2 = ?h1 @ [?new]" by simp
  have n: "VRef (length h0) \<noteq> VRef (length ?h1)" by simp
  show ?thesis
    unfolding p h1 using s w e n d1 d2 d3 by blast
qed

theorem caller_document_unchanged_witness:
  "prompt_ref prompt = VRef 10 \<and> length (heap_before prompt) = 11 \<and>
   (\<exists>json h c.
     serialize unary_enc 0 prompt = Some (json, h, VRef 10) \<and>
     with_schema (heap_before prompt) (VRef 10) = Some (VRef 11, h) \<and>
     h = heap_before prompt @ [c] \<and>
     deref 11 (heap_before prompt) (VRef 10) = Some (prompt_obj prompt) \<and>
     deref (length h) h (VRef 10) = Some (prompt_obj prompt) \<and>
     deref (length h) h (VRef 11) = Some (document prompt))"
proof -
  have p: "prompt_ref prompt = VRef 10" and n: "length (heap_before prompt) = 11"
    by (simp_all add: prompt_ref_def heap_before_def prompt_obj_def prompt_entries_def prompt_def
        Background_obj_def Camera_obj_def Resolution_obj_def Subject_obj_def TextOverlay_obj_def
        strs_def)
  from caller_document_unchanged [of unary_enc 0 prompt] show ?thesis
    unfolding p n using p n by blast
qed

text \<open>
  C5. The script calls \<^verbatim>\<open>Bun.write\<close> exactly once, whatever the writer and the world, with
  the path \<^verbatim>\<open>prompt.json\<close> and the serialized string, and leaves the world that call
  leaves. With the write of the runtime on a world without a fault, the run finishes and
  the files afterwards are the files before with the one path \<^verbatim>\<open>prompt.json\<close> under the
  working directory bound to the string: what was there is overwritten, every other path
  is as it was.
\<close>

theorem one_artifact_written:
  assumes "fault w = NoFault"
  shows "\<exists>json.
     calls (script enc k bun_write w V) = [(''prompt.json'', json)] \<and>
     exit (script enc k bun_write w V) = Finished \<and>
     files (world (script enc k bun_write w V)) = (files w)(cwd w @ ''/prompt.json'' \<mapsto> json) \<and>
     calls (script enc k writer w' V) = [(''prompt.json'', json)] \<and>
     world (script enc k writer w' V) = snd (writer w' ''prompt.json'' json)"
  using assms
  by (simp add: script_calls script_world script_exit bun_write_def resolve_def)

theorem one_artifact_written_witness:
  "fault workdir = NoFault \<and>
   files workdir ''/work/prompt.json'' = Some ''stale'' \<and>
   (\<exists>json.
     calls (script unary_enc 0 bun_write workdir prompt) = [(''prompt.json'', json)] \<and>
     exit (script unary_enc 0 bun_write workdir prompt) = Finished \<and>
     files (world (script unary_enc 0 bun_write workdir prompt)) =
       [''/work/prompt.json'' \<mapsto> json, ''/work/notes.txt'' \<mapsto> ''keep''])"
proof -
  have f: "fault workdir = NoFault" by (simp add: workdir_def)
  have st: "files workdir ''/work/prompt.json'' = Some ''stale''" by (simp add: workdir_def)
  from one_artifact_written [of workdir unary_enc 0 prompt bun_write workdir, OF f]
  obtain json where c: "calls (script unary_enc 0 bun_write workdir prompt) = [(''prompt.json'', json)]"
    and e: "exit (script unary_enc 0 bun_write workdir prompt) = Finished"
    and w: "files (world (script unary_enc 0 bun_write workdir prompt)) =
       (files workdir)(cwd workdir @ ''/prompt.json'' \<mapsto> json)"
    by (elim exE conjE)
  have "(files workdir)(cwd workdir @ ''/prompt.json'' \<mapsto> json) =
      [''/work/prompt.json'' \<mapsto> json, ''/work/notes.txt'' \<mapsto> ''keep'']"
    by (rule ext) (simp add: workdir_def)
  with w have fw: "files (world (script unary_enc 0 bun_write workdir prompt)) =
      [''/work/prompt.json'' \<mapsto> json, ''/work/notes.txt'' \<mapsto> ''keep'']" by simp
  from f st c e fw show ?thesis by (intro conjI exI [of _ json])
qed

text \<open>
  C6. The run of the entry point, with the literal of \<^verbatim>\<open>src/index.ts\<close>: it makes one call
  of \<^verbatim>\<open>Bun.write\<close>, and for every decoder compatible with the encoder the string it writes
  decodes to the value below: \<^verbatim>\<open>$schema\<close> is the schema URL, and every other property
  is the one the literal gives, the scene, the one subject, width 4096, height 4320 and
  aspect ratio 16:9 among them.
\<close>

theorem main_artifact:
  assumes "compatible enc dec"
  shows "\<exists>json.
     calls (main enc k writer w) = [(''prompt.json'', json)] \<and>
     dec json = Some (JObj
      [(''$schema'',
        JStr ''https://raw.githubusercontent.com/xcaeser/generation-schemas/main/schemas/v1.0.0/image-generation.schema.json''),
       (''scene'', JStr ''A red smoothie on a premium kitchen countertop''),
       (''background'',
        JObj [(''elements'', JArr []), (''depth_of_field'', JStr ''anamorphic bokeh (oval-shaped)'')]),
       (''camera'',
        JObj
         [(''angle'',
           JStr ''crane shot (camera moves vertically on a crane, implies changing perspective)''),
          (''distance'', JStr ''cutaway shot (briefly shows something other than main action)''),
          (''focus'', JStr ''follow focus (keeping a moving subject sharp)''),
          (''lens_type'', JStr ''prime lens (fixed focal length, often sharper)'')]),
       (''color_palette'', JArr [JStr ''white'', JStr ''red'', JStr ''black'']),
       (''lighting'', JStr ''candlelight (warm, flickering, intimate)''),
       (''composition'', JStr ''depth (foreground, middle ground, background layers)''),
       (''mood'', JStr ''cozy and comforting''),
       (''props'', JArr [JStr ''none'']),
       (''resolution'',
        JObj
         [(''width'', JStr ''4096''), (''height'', JStr ''4320''), (''aspect_ratio'', JStr ''16:9''),
          (''dpi'', JStr ''300 (Standard Print)'')]),
       (''style'', JStr ''HDR photography (high dynamic range)''),
       (''subjects'',
        JArr
         [JObj
           [(''description'', JStr ''A red smoothie in a glass''), (''expression'', JStr ''happy''),
            (''pose'', JStr ''sitting''), (''position'', JStr ''middle-left midground''),
            (''type'', JStr ''glass with smoothie'')]]),
       (''text_overlays'',
        JArr
         [JObj
           [(''content'', JStr ''A red smoothie on a premium kitchen countertop''),
            (''position'', JStr ''top-center edge''), (''style'', JStr ''bold''),
            (''size'', JStr ''large''), (''font_color'', JStr ''gold''),
            (''font_family'', JStr ''Futura Condensed Bold''), (''opacity'', JNum (Finite 0.8)),
            (''rotation'', JNum (Finite (- 15)))]]),
       (''guidance_scale'', JNum (Finite 10))])"
proof -
  have "calls (main enc k writer w) = [(''prompt.json'', enc k (document prompt))]"
    by (simp add: main_def script_calls)
  moreover have "dec (enc k (document prompt)) = Some (document prompt)"
    using assms by (rule decode_document)
  ultimately show ?thesis unfolding document_prompt by blast
qed

theorem main_artifact_witness:
  "compatible unary_enc unary_dec \<and>
   (\<exists>json X R S.
     calls (main unary_enc 0 bun_write workdir) = [(''prompt.json'', json)] \<and>
     unary_dec json = Some X \<and>
     get X ''$schema'' =
       Some (JStr ''https://raw.githubusercontent.com/xcaeser/generation-schemas/main/schemas/v1.0.0/image-generation.schema.json'') \<and>
     get X ''scene'' = Some (JStr ''A red smoothie on a premium kitchen countertop'') \<and>
     get X ''resolution'' = Some R \<and>
     get R ''width'' = Some (JStr ''4096'') \<and> get R ''height'' = Some (JStr ''4320'') \<and>
     get R ''aspect_ratio'' = Some (JStr ''16:9'') \<and>
     get X ''subjects'' = Some (JArr [S]))"
proof -
  have "\<exists>json. calls (main unary_enc 0 bun_write workdir) = [(''prompt.json'', json)] \<and>
      unary_dec json = Some (document prompt)"
    using main_artifact [OF compatible_unary, of 0 bun_write workdir]
    by (simp only: document_prompt)
  then obtain json where c: "calls (main unary_enc 0 bun_write workdir) = [(''prompt.json'', json)]"
    and d: "unary_dec json = Some (document prompt)"
    by (elim exE conjE)
  let ?R = "JObj
         [(''width'', JStr ''4096''), (''height'', JStr ''4320''), (''aspect_ratio'', JStr ''16:9''),
          (''dpi'', JStr ''300 (Standard Print)'')]"
  let ?S = "JObj
           [(''description'', JStr ''A red smoothie in a glass''), (''expression'', JStr ''happy''),
            (''pose'', JStr ''sitting''), (''position'', JStr ''middle-left midground''),
            (''type'', JStr ''glass with smoothie'')]"
  have x1: "get (document prompt) ''$schema'' =
       Some (JStr ''https://raw.githubusercontent.com/xcaeser/generation-schemas/main/schemas/v1.0.0/image-generation.schema.json'')"
    by (simp add: document_prompt)
  have x2: "get (document prompt) ''scene'' =
       Some (JStr ''A red smoothie on a premium kitchen countertop'')"
    by (simp add: document_prompt)
  have x3: "get (document prompt) ''resolution'' = Some ?R"
    by (simp add: document_prompt)
  have x4: "get (document prompt) ''subjects'' = Some (JArr [?S])"
    by (simp add: document_prompt)
  have r: "get ?R ''width'' = Some (JStr ''4096'')" "get ?R ''height'' = Some (JStr ''4320'')"
    "get ?R ''aspect_ratio'' = Some (JStr ''16:9'')"
    by simp_all
  from compatible_unary c d x1 x2 x3 x4 r show ?thesis
    by (intro conjI exI [of _ json] exI [of _ "document prompt"] exI [of _ ?R] exI [of _ ?S])
qed

text \<open>
  C7. Two serializations of the same document, whatever bytes the encoder chooses each
  time and in whatever worlds the runs take place, decode to the same value, the document
  with its \<^verbatim>\<open>$schema\<close>. With the same choice of the encoder the bytes are the same too:
  the world (arguments, environment, files) and the writer have no part in what is
  written.
\<close>

theorem serialization_deterministic:
  assumes "compatible enc dec"
  shows "\<exists>j1 j2.
     calls (script enc k1 writer1 w1 V) = [(''prompt.json'', j1)] \<and>
     calls (script enc k2 writer2 w2 V) = [(''prompt.json'', j2)] \<and>
     dec j1 = Some (document V) \<and> dec j2 = Some (document V) \<and>
     calls (script enc k1 writer2 w2 V) = calls (script enc k1 writer1 w1 V)"
proof -
  have "dec (enc k1 (document V)) = Some (document V)"
    and "dec (enc k2 (document V)) = Some (document V)"
    using assms by (simp_all add: decode_document)
  then show ?thesis by (simp add: script_calls)
qed

theorem serialization_deterministic_witness:
  "compatible unary_enc unary_dec \<and>
   (\<exists>j1 j2.
     calls (script unary_enc 0 bun_write workdir prompt) = [(''prompt.json'', j1)] \<and>
     calls (script unary_enc 1 bun_write elsewhere prompt) = [(''prompt.json'', j2)] \<and>
     unary_dec j1 = Some (document prompt) \<and> unary_dec j2 = Some (document prompt) \<and>
     calls (script unary_enc 0 bun_write elsewhere prompt) =
       calls (script unary_enc 0 bun_write workdir prompt))"
  apply (rule conjI)
   apply (rule compatible_unary)
  apply (rule serialization_deterministic [OF compatible_unary])
  done

text \<open>
  C8. Whatever number an overlay has as its opacity, in [0, 1] or not, the document is
  serialized, the script goes on to write it, and the decoded artifact has that very
  number as the opacity of that overlay: nothing clamps it and nothing rejects it. The
  values 0 and 1 are two instances.
\<close>

theorem opacity_preserved:
  assumes "compatible enc dec" and "text_overlays V = Given ts" and "i < length ts"
  shows "\<exists>json h p X A T.
     serialize enc k V = Some (json, h, p) \<and>
     calls (script enc k writer w V) = [(''prompt.json'', json)] \<and>
     dec json = Some X \<and>
     get X ''text_overlays'' = Some A \<and> item A i = Some T \<and>
     get T ''opacity'' = Some (JNum (opacity (ts ! i)))"
proof -
  from serialize_json [of enc k V]
  obtain h p where s: "serialize enc k V = Some (enc k (document V), h, p)"
    by blast
  have d: "dec (enc k (document V)) = Some (document V)"
    using assms(1) by (rule decode_document)
  have a: "get (document V) ''text_overlays'' = Some (JArr (map TextOverlay_obj ts))"
    using assms(2) by (simp add: get_text_overlays)
  have b: "item (JArr (map TextOverlay_obj ts)) i = Some (TextOverlay_obj (ts ! i))"
    using assms(3) by simp
  from s script_calls [of enc k writer w V] d a b get_opacity [of "ts ! i"]
  show ?thesis by blast
qed

theorem opacity_preserved_witness:
  "compatible unary_enc unary_dec \<and>
   text_overlays edge_opacities =
     Given [banner (Finite 0), banner (Finite 1), banner (Finite 1.5), banner (Finite (- 0.2))] \<and>
   (\<exists>json h p X A T0 T1 T2 T3.
     serialize unary_enc 0 edge_opacities = Some (json, h, p) \<and>
     calls (script unary_enc 0 bun_write workdir edge_opacities) = [(''prompt.json'', json)] \<and>
     unary_dec json = Some X \<and>
     get X ''text_overlays'' = Some A \<and>
     item A 0 = Some T0 \<and> get T0 ''opacity'' = Some (JNum (Finite 0)) \<and>
     item A 1 = Some T1 \<and> get T1 ''opacity'' = Some (JNum (Finite 1)) \<and>
     item A 2 = Some T2 \<and> get T2 ''opacity'' = Some (JNum (Finite 1.5)) \<and>
     item A 3 = Some T3 \<and> get T3 ''opacity'' = Some (JNum (Finite (- 0.2))))"
proof -
  let ?ts = "[banner (Finite 0), banner (Finite 1), banner (Finite 1.5), banner (Finite (- 0.2))]"
  have t: "text_overlays edge_opacities = Given ?ts"
    by (simp add: edge_opacities_def)
  have o: "opacity (?ts ! 0) = Finite 0" "opacity (?ts ! 1) = Finite 1"
    "opacity (?ts ! 2) = Finite 1.5" "opacity (?ts ! 3) = Finite (- 0.2)"
    by (simp_all add: banner_def)
  note op = opacity_preserved [OF compatible_unary t, of _ 0 bun_write workdir]
  from op [of 0] obtain json h p X A T0 where
    a: "serialize unary_enc 0 edge_opacities = Some (json, h, p)"
      "calls (script unary_enc 0 bun_write workdir edge_opacities) = [(''prompt.json'', json)]"
      "unary_dec json = Some X" "get X ''text_overlays'' = Some A"
      "item A 0 = Some T0" "get T0 ''opacity'' = Some (JNum (Finite 0))"
    unfolding o by auto
  from op [of 1] a obtain T1 where
    b: "item A 1 = Some T1" "get T1 ''opacity'' = Some (JNum (Finite 1))"
    unfolding o by auto
  from op [of 2] a obtain T2 where
    c: "item A 2 = Some T2" "get T2 ''opacity'' = Some (JNum (Finite 1.5))"
    unfolding o by auto
  from op [of 3] a obtain T3 where
    d: "item A 3 = Some T3" "get T3 ''opacity'' = Some (JNum (Finite (- 0.2)))"
    unfolding o by auto
  from compatible_unary t a b c d show ?thesis by blast
qed

text \<open>
  C9. A document whose \<open>subjects\<close> is the empty sequence is serialized like any other: the
  string decodes to a value whose \<open>subjects\<close> is the empty array; the script makes its call
  of \<^verbatim>\<open>Bun.write\<close> and ends as that call ends, so no error arises but one of the write
  itself; and where the write meets no fault the run finishes with the string in the file.
\<close>

theorem empty_subjects_accepted:
  assumes "compatible enc dec" and "subjects V = []"
  shows "\<exists>json h p X.
     serialize enc k V = Some (json, h, p) \<and>
     dec json = Some X \<and>
     get X ''subjects'' = Some (JArr []) \<and>
     calls (script enc k writer w V) = [(''prompt.json'', json)] \<and>
     exit (script enc k writer w V) =
       (case fst (writer w ''prompt.json'' json) of Inl e \<Rightarrow> Uncaught e | Inr n \<Rightarrow> Finished) \<and>
     (fault w' = NoFault \<longrightarrow>
        exit (script enc k bun_write w' V) = Finished \<and>
        files (world (script enc k bun_write w' V)) (resolve (cwd w') ''prompt.json'') = Some json)"
proof -
  from serialize_json [of enc k V]
  obtain h p where s: "serialize enc k V = Some (enc k (document V), h, p)"
    by blast
  have d: "dec (enc k (document V)) = Some (document V)"
    using assms(1) by (rule decode_document)
  have g: "get (document V) ''subjects'' = Some (JArr [])"
    using assms(2) by (simp add: get_subjects)
  have f: "fault w' = NoFault \<longrightarrow>
      exit (script enc k bun_write w' V) = Finished \<and>
      files (world (script enc k bun_write w' V)) (resolve (cwd w') ''prompt.json'') =
        Some (enc k (document V))"
    by (simp add: script_exit script_world bun_write_def)
  from s d g script_calls [of enc k writer w V] script_exit [of enc k writer w V] f
  show ?thesis by blast
qed

theorem empty_subjects_accepted_witness:
  "compatible unary_enc unary_dec \<and> subjects unpopulated = [] \<and> fault workdir = NoFault \<and>
   (\<exists>json h p X.
     serialize unary_enc 0 unpopulated = Some (json, h, p) \<and>
     unary_dec json = Some X \<and>
     get X ''subjects'' = Some (JArr []) \<and>
     calls (script unary_enc 0 bun_write workdir unpopulated) = [(''prompt.json'', json)] \<and>
     exit (script unary_enc 0 bun_write workdir unpopulated) = Finished \<and>
     files (world (script unary_enc 0 bun_write workdir unpopulated)) ''/work/prompt.json'' =
       Some json)"
proof -
  have u: "subjects unpopulated = []" by (simp add: unpopulated_def)
  have f: "fault workdir = NoFault" and c: "cwd workdir = ''/work''"
    by (simp_all add: workdir_def)
  from empty_subjects_accepted [OF compatible_unary u, of 0 bun_write workdir workdir]
  obtain json h p X where
    a: "serialize unary_enc 0 unpopulated = Some (json, h, p)"
      "unary_dec json = Some X" "get X ''subjects'' = Some (JArr [])"
      "calls (script unary_enc 0 bun_write workdir unpopulated) = [(''prompt.json'', json)]"
    and b: "fault workdir = NoFault \<longrightarrow>
        exit (script unary_enc 0 bun_write workdir unpopulated) = Finished \<and>
        files (world (script unary_enc 0 bun_write workdir unpopulated))
          (resolve (cwd workdir) ''prompt.json'') = Some json"
    by (elim exE conjE)
  from b f have e: "exit (script unary_enc 0 bun_write workdir unpopulated) = Finished"
    and w: "files (world (script unary_enc 0 bun_write workdir unpopulated)) ''/work/prompt.json'' =
       Some json"
    by (simp_all add: c resolve_work)
  from compatible_unary u f a e w show ?thesis
    by (intro conjI exI [of _ json] exI [of _ h] exI [of _ p] exI [of _ X])
qed

text \<open>
  C10. A property the caller leaves out is no property of the decoded artifact: looking
  it up finds nothing, neither \<^verbatim>\<open>null\<close> nor a default. This holds for \<open>seed\<close>,
  \<open>num_inference_steps\<close>, \<open>model_identifier\<close>, \<open>negative_prompt\<close>, \<open>props\<close> and
  \<open>text_overlays\<close> of the document, for \<open>label\<close> of the resolution, \<open>environment_type\<close> of the
  background, \<open>accessories\<close> of each subject and \<open>rotation\<close> of each overlay.
\<close>

theorem omitted_fields_absent:
  assumes "compatible enc dec"
  shows "\<exists>json h p X.
     serialize enc k V = Some (json, h, p) \<and> dec json = Some X \<and>
     (seed V = Omitted \<longrightarrow> get X ''seed'' = None) \<and>
     (num_inference_steps V = Omitted \<longrightarrow> get X ''num_inference_steps'' = None) \<and>
     (model_identifier V = Omitted \<longrightarrow> get X ''model_identifier'' = None) \<and>
     (negative_prompt V = Omitted \<longrightarrow> get X ''negative_prompt'' = None) \<and>
     (props V = Omitted \<longrightarrow> get X ''props'' = None) \<and>
     (text_overlays V = Omitted \<longrightarrow> get X ''text_overlays'' = None) \<and>
     (label (resolution V) = Omitted \<longrightarrow>
        (\<exists>R. get X ''resolution'' = Some R \<and> get R ''label'' = None)) \<and>
     (environment_type (background V) = Omitted \<longrightarrow>
        (\<exists>B. get X ''background'' = Some B \<and> get B ''environment_type'' = None)) \<and>
     (\<forall>i. i < length (subjects V) \<longrightarrow> accessories (subjects V ! i) = Omitted \<longrightarrow>
        (\<exists>A S. get X ''subjects'' = Some A \<and> item A i = Some S \<and>
           get S ''accessories'' = None)) \<and>
     (\<forall>ts i. text_overlays V = Given ts \<longrightarrow> i < length ts \<longrightarrow> rotation (ts ! i) = Omitted \<longrightarrow>
        (\<exists>A T. get X ''text_overlays'' = Some A \<and> item A i = Some T \<and>
           get T ''rotation'' = None))"
proof -
  let ?X = "document V"
  from serialize_json [of enc k V]
  obtain h p where s: "serialize enc k V = Some (enc k ?X, h, p)"
    by blast
  have d: "dec (enc k ?X) = Some ?X"
    using assms by (rule decode_document)
  have 1: "seed V = Omitted \<longrightarrow> get ?X ''seed'' = None"
    by (simp add: get_seed)
  have 2: "num_inference_steps V = Omitted \<longrightarrow> get ?X ''num_inference_steps'' = None"
    by (simp add: get_num_inference_steps)
  have 3: "model_identifier V = Omitted \<longrightarrow> get ?X ''model_identifier'' = None"
    by (simp add: get_model_identifier)
  have 4: "negative_prompt V = Omitted \<longrightarrow> get ?X ''negative_prompt'' = None"
    by (simp add: get_negative_prompt)
  have 5: "props V = Omitted \<longrightarrow> get ?X ''props'' = None"
    by (simp add: get_props)
  have 6: "text_overlays V = Omitted \<longrightarrow> get ?X ''text_overlays'' = None"
    by (simp add: get_text_overlays)
  have 7: "label (resolution V) = Omitted \<longrightarrow>
      (\<exists>R. get ?X ''resolution'' = Some R \<and> get R ''label'' = None)"
    by (simp add: get_resolution get_label)
  have 8: "environment_type (background V) = Omitted \<longrightarrow>
      (\<exists>B. get ?X ''background'' = Some B \<and> get B ''environment_type'' = None)"
    by (simp add: get_background get_environment_type)
  have 9: "\<forall>i. i < length (subjects V) \<longrightarrow> accessories (subjects V ! i) = Omitted \<longrightarrow>
      (\<exists>A S. get ?X ''subjects'' = Some A \<and> item A i = Some S \<and> get S ''accessories'' = None)"
    by (simp add: get_subjects get_accessories)
  have 10: "\<forall>ts i. text_overlays V = Given ts \<longrightarrow> i < length ts \<longrightarrow> rotation (ts ! i) = Omitted \<longrightarrow>
      (\<exists>A T. get ?X ''text_overlays'' = Some A \<and> item A i = Some T \<and> get T ''rotation'' = None)"
    by (simp add: get_text_overlays get_rotation)
  from s d 1 2 3 4 5 6 7 8 9 10 show ?thesis by blast
qed

theorem omitted_fields_absent_witness:
  "compatible unary_enc unary_dec \<and>
   seed bare = Omitted \<and> num_inference_steps bare = Omitted \<and>
   model_identifier bare = Omitted \<and> negative_prompt bare = Omitted \<and>
   props bare = Omitted \<and> text_overlays bare = Omitted \<and>
   label (resolution bare) = Omitted \<and> environment_type (background bare) = Omitted \<and>
   length (subjects bare) = 1 \<and> accessories (subjects bare ! 0) = Omitted \<and>
   (\<exists>json h p X R B A S.
     serialize unary_enc 0 bare = Some (json, h, p) \<and> unary_dec json = Some X \<and>
     get X ''seed'' = None \<and> get X ''num_inference_steps'' = None \<and>
     get X ''model_identifier'' = None \<and> get X ''negative_prompt'' = None \<and>
     get X ''props'' = None \<and> get X ''text_overlays'' = None \<and>
     get X ''resolution'' = Some R \<and> get R ''label'' = None \<and>
     get X ''background'' = Some B \<and> get B ''environment_type'' = None \<and>
     get X ''subjects'' = Some A \<and> item A 0 = Some S \<and> get S ''accessories'' = None) \<and>
   rotation (banner (Finite 1)) = Omitted \<and>
   (\<exists>json h p X A T.
     serialize unary_enc 0 edge_opacities = Some (json, h, p) \<and> unary_dec json = Some X \<and>
     get X ''text_overlays'' = Some A \<and> item A 1 = Some T \<and> get T ''rotation'' = None)"
proof -
  have b: "seed bare = Omitted" "num_inference_steps bare = Omitted"
    "model_identifier bare = Omitted" "negative_prompt bare = Omitted"
    "props bare = Omitted" "text_overlays bare = Omitted"
    "label (resolution bare) = Omitted" "environment_type (background bare) = Omitted"
    "length (subjects bare) = 1" "accessories (subjects bare ! 0) = Omitted"
    by (simp_all add: bare_def prompt_def)
  from omitted_fields_absent [OF compatible_unary, of 0 bare]
  obtain json h p X where s: "serialize unary_enc 0 bare = Some (json, h, p)"
    and d: "unary_dec json = Some X"
    and i: "seed bare = Omitted \<longrightarrow> get X ''seed'' = None"
      "num_inference_steps bare = Omitted \<longrightarrow> get X ''num_inference_steps'' = None"
      "model_identifier bare = Omitted \<longrightarrow> get X ''model_identifier'' = None"
      "negative_prompt bare = Omitted \<longrightarrow> get X ''negative_prompt'' = None"
      "props bare = Omitted \<longrightarrow> get X ''props'' = None"
      "text_overlays bare = Omitted \<longrightarrow> get X ''text_overlays'' = None"
    and j: "label (resolution bare) = Omitted \<longrightarrow>
        (\<exists>R. get X ''resolution'' = Some R \<and> get R ''label'' = None)"
      "environment_type (background bare) = Omitted \<longrightarrow>
        (\<exists>B. get X ''background'' = Some B \<and> get B ''environment_type'' = None)"
      "\<forall>i. i < length (subjects bare) \<longrightarrow> accessories (subjects bare ! i) = Omitted \<longrightarrow>
        (\<exists>A S. get X ''subjects'' = Some A \<and> item A i = Some S \<and>
           get S ''accessories'' = None)"
    by (elim exE conjE)
  from i b have g: "get X ''seed'' = None" "get X ''num_inference_steps'' = None"
    "get X ''model_identifier'' = None" "get X ''negative_prompt'' = None"
    "get X ''props'' = None" "get X ''text_overlays'' = None"
    by simp_all
  from j(1) b obtain R where r: "get X ''resolution'' = Some R" "get R ''label'' = None"
    by blast
  from j(2) b obtain B where bg: "get X ''background'' = Some B" "get B ''environment_type'' = None"
    by blast
  from j(3) b have "\<exists>A S. get X ''subjects'' = Some A \<and> item A 0 = Some S \<and>
      get S ''accessories'' = None"
    by simp
  then obtain A S where su: "get X ''subjects'' = Some A" "item A 0 = Some S"
    "get S ''accessories'' = None"
    by blast
  from s d g r bg su have 1: "\<exists>json h p X R B A S.
     serialize unary_enc 0 bare = Some (json, h, p) \<and> unary_dec json = Some X \<and>
     get X ''seed'' = None \<and> get X ''num_inference_steps'' = None \<and>
     get X ''model_identifier'' = None \<and> get X ''negative_prompt'' = None \<and>
     get X ''props'' = None \<and> get X ''text_overlays'' = None \<and>
     get X ''resolution'' = Some R \<and> get R ''label'' = None \<and>
     get X ''background'' = Some B \<and> get B ''environment_type'' = None \<and>
     get X ''subjects'' = Some A \<and> item A 0 = Some S \<and> get S ''accessories'' = None"
    by blast
  let ?ts = "[banner (Finite 0), banner (Finite 1), banner (Finite 1.5), banner (Finite (- 0.2))]"
  have e: "text_overlays edge_opacities = Given ?ts" "rotation (?ts ! 1) = Omitted"
    "rotation (banner (Finite 1)) = Omitted" "(1::nat) < length ?ts"
    by (simp_all add: edge_opacities_def banner_def)
  have 2: "\<exists>json h p X A T.
     serialize unary_enc 0 edge_opacities = Some (json, h, p) \<and> unary_dec json = Some X \<and>
     get X ''text_overlays'' = Some A \<and> item A 1 = Some T \<and> get T ''rotation'' = None"
    using omitted_fields_absent [OF compatible_unary, of 0 edge_opacities] e
    by (elim exE conjE) blast
  from compatible_unary b 1 e(3) 2 show ?thesis by (intro conjI)
qed

end
